theory Spec2Isabelle
  imports Complex_Main "HOL-Library.Multiset"
begin

section \<open>Data model\<close>

text \<open>
  The notebooks load one CSV of trades into a dataframe and wrap it as
  \<^verbatim>\<open>hv.Spikes(df, ['timestamp'], ['symbol', 'size', 'price'])\<close>: one key dimension
  (the timestamp, integer nanoseconds) and three value dimensions. A row of that element
  is an \<open>event\<close>; the element itself is the list of its rows, in dataframe order.
  The price is carried along for the hover tool and never computed with; it is kept in
  integral ticks.
\<close>

record event =
  timestamp :: int
  symbol :: string
  trade_size :: int
  price :: int

text \<open>
  The contents of a \<^verbatim>\<open>RangeX\<close> stream: \<open>None\<close> while the plot has reported no range,
  otherwise a pair of bounds, each of which may itself be absent.
\<close>

type_synonym bounds = "int option \<times> int option"
type_synonym xrange = "bounds option"

section \<open>Library operations on a Spikes element\<close>

text \<open>
  Modelled from the spec: the slice \<^verbatim>\<open>spikes[low:high]\<close> is an operation of the plotting
  library, whose code is not part of the repository. Following the Range of the data
  model (a pair on the timestamp ordinate, half-open as in the scenario of the testable
  properties, where \<open>t = 2\<close> is excluded from \<open>[0,2)\<close>; an absent bound leaves that side
  unbounded), the slice keeps the rows whose timestamp lies in the range, in their
  stored order.
\<close>

definition in_bounds :: "int option \<Rightarrow> int option \<Rightarrow> int \<Rightarrow> bool" where
  "in_bounds low high t \<longleftrightarrow>
     (case low of None \<Rightarrow> True | Some l \<Rightarrow> l \<le> t) \<and>
     (case high of None \<Rightarrow> True | Some h \<Rightarrow> t < h)"

text \<open>
  Modelled from the spec: the slice \<^verbatim>\<open>spikes[low:high]\<close> itself (library code, not part of
  the repository): the rows whose timestamp is within the bounds, in their stored order.
\<close>

definition slice :: "event list \<Rightarrow> int option \<Rightarrow> int option \<Rightarrow> event list" where
  "slice spikes low high = filter (\<lambda>e. in_bounds low high (timestamp e)) spikes"

text \<open>\<^verbatim>\<open>ranged.iloc[:n]\<close>: the first \<open>n\<close> rows by position.\<close>

definition iloc_upto :: "nat \<Rightarrow> event list \<Rightarrow> event list" where
  "iloc_upto n ranged = take n ranged"

section \<open>The detail filter\<close>

text \<open>
  What \<^verbatim>\<open>xrange_filter\<close> returns: a Spikes element together with the two display options
  set on it by \<^verbatim>\<open>.opts(spike_length=1, alpha=0)\<close>.
\<close>

record hover_spikes =
  rows :: "event list"
  spike_length :: nat
  alpha :: nat

definition opts :: "event list \<Rightarrow> nat \<Rightarrow> nat \<Rightarrow> hover_spikes" where
  "opts element len a = \<lparr>rows = element, spike_length = len, alpha = a\<rparr>"

text \<open>
  \<^verbatim>\<open>
  def xrange_filter(spikes, x_range):
      low, high = (None, None) if x_range is None else x_range
      ranged = spikes[low:high]
      return (ranged if len(ranged) < 200 else ranged.iloc[:0]).opts(spike_length=1, alpha=0)
  \<close>
  The function occurs twice, with the literal 200 in the per-stock notebook and 600 in
  the all-trades notebook; \<open>xrange_filter_at\<close> is that body with the literal as its first
  argument.
\<close>

definition unpack :: "xrange \<Rightarrow> bounds" where
  "unpack x_range = (case x_range of None \<Rightarrow> (None, None) | Some r \<Rightarrow> r)"

definition ranged_of :: "event list \<Rightarrow> xrange \<Rightarrow> event list" where
  "ranged_of spikes x_range = (case unpack x_range of (low, high) \<Rightarrow> slice spikes low high)"

definition xrange_filter_at :: "nat \<Rightarrow> event list \<Rightarrow> xrange \<Rightarrow> hover_spikes" where
  "xrange_filter_at threshold spikes x_range =
     (let ranged = ranged_of spikes x_range
      in opts (if length ranged < threshold then ranged else iloc_upto 0 ranged) 1 0)"

definition xrange_filter :: "event list \<Rightarrow> xrange \<Rightarrow> hover_spikes" where
  "xrange_filter = xrange_filter_at 200"

definition xrange_filter_trading :: "event list \<Rightarrow> xrange \<Rightarrow> hover_spikes" where
  "xrange_filter_trading = xrange_filter_at 600"

section \<open>Per-symbol views\<close>

text \<open>
  Modelled from the spec: \<^verbatim>\<open>spikes.select(symbol=symbol)\<close> is an operation of the plotting
  library, whose code is not part of the repository. Following the DetailSet and the
  coordinator of the spec (the events "whose category matches the active selection"),
  it keeps the rows whose symbol is the given one, in their stored order.
\<close>

definition select :: "event list \<Rightarrow> string \<Rightarrow> event list" where
  "select spikes symb = filter (\<lambda>e. symbol e = symb) spikes"

text \<open>
  \<^verbatim>\<open>range_stream = hv.streams.RangeX()\<close>: one global stream object, with the element it is
  attached to (none at construction) and its current contents.
\<close>

record range_stream =
  source :: "event list option"
  x_range :: xrange

text \<open>
  The rasterizer \<^verbatim>\<open>spikes_aggregate\<close> belongs to the plotting library. In the per-symbol
  functions it is a parameter: a function from the selected element, the contents of the
  range stream and the vertical offset to an image of some type \<open>'g\<close> (the aggregator
  \<^verbatim>\<open>ds.sum('size')\<close>, \<^verbatim>\<open>spike_length=1\<close>, \<^verbatim>\<open>expand=False\<close> and the display options
  \<^verbatim>\<open>raster_opts\<close> are the same at every call site and belong to the image).

  A \<^verbatim>\<open>DynamicMap\<close> driven by \<^verbatim>\<open>streams=[range_stream]\<close> is a callback from the contents of
  that stream to an element, so it is a function of an \<open>xrange\<close>. The product
  \<^verbatim>\<open>rasterized * filtered\<close> of two such maps on the same stream is the map that evaluates
  both at the same contents.
\<close>

record 'g layer =
  raster :: 'g
  hover :: hover_spikes
  tools :: "string list"
  position :: nat

text \<open>
  \<^verbatim>\<open>
  def visualize_symbol_raster(symbol, offset):
      selection = spikes.select(symbol=symbol)
      return spikes_aggregate(selection, offset=offset,
                              aggregator=ds.sum('size'),
                              spike_length=1).opts(raster_opts)
  \<close>
\<close>

definition visualize_symbol_raster ::
  "(event list \<Rightarrow> xrange \<Rightarrow> nat \<Rightarrow> 'g) \<Rightarrow> event list \<Rightarrow> string \<Rightarrow> nat \<Rightarrow> xrange \<Rightarrow> 'g" where
  "visualize_symbol_raster spikes_aggregate spikes symb offset =
     (let selection = select spikes symb
      in (\<lambda>xr. spikes_aggregate selection xr offset))"

text \<open>
  \<^verbatim>\<open>
  def visualize_symbol(symbol, offset):
      selection = spikes.select(symbol=symbol)
      range_stream.source = selection
      rasterized = spikes_aggregate(selection, streams=[range_stream],
                                    offset=offset, expand=False,
                                    aggregator=ds.sum('size'),
                                    spike_length=1).opts(raster_opts)
      filtered = selection.apply(xrange_filter, streams=[range_stream])
      return rasterized * filtered.opts(tools=[hover], position=offset)
  \<close>
  The assignment to the global stream is the function's one side effect; the stream is
  passed in and returned.
\<close>

definition visualize_symbol ::
  "(event list \<Rightarrow> xrange \<Rightarrow> nat \<Rightarrow> 'g) \<Rightarrow> event list \<Rightarrow> string \<Rightarrow> nat \<Rightarrow> range_stream
     \<Rightarrow> (xrange \<Rightarrow> 'g layer) \<times> range_stream" where
  "visualize_symbol spikes_aggregate spikes symb offset rs =
     (let selection = select spikes symb;
          rs' = rs\<lparr>source := Some selection\<rparr>;
          rasterized = (\<lambda>xr. spikes_aggregate selection xr offset);
          filtered = (\<lambda>xr. xrange_filter selection xr)
      in (\<lambda>xr. \<lparr>raster = rasterized xr, hover = filtered xr,
               tools = [''hover''], position = offset\<rparr>, rs'))"

text \<open>
  \<^verbatim>\<open>
  def overlay_symbols(symbols):
      items = []
      for offset, symbol in enumerate(symbols):
          items.append(visualize_symbol(symbol, offset))
      yticks = [(i+0.5,sym) for i,sym in enumerate(symbols)]
      return hv.Overlay(items).collate().opts(
          yticks=yticks, yaxis=True).redim(y='Stock Symbol')
  \<close>
  \<open>overlay_loop\<close> is the \<^verbatim>\<open>for\<close> loop with its accumulator \<open>items\<close>. \<^verbatim>\<open>collate\<close> turns the
  overlay of dynamic maps into one dynamic map of overlays.
\<close>

record 'g overlay =
  layers :: "'g layer list"
  yticks :: "(rat \<times> string) list"
  yaxis :: bool
  ylabel :: string

fun overlay_loop ::
  "(event list \<Rightarrow> xrange \<Rightarrow> nat \<Rightarrow> 'g) \<Rightarrow> event list \<Rightarrow> (nat \<times> string) list
     \<Rightarrow> (xrange \<Rightarrow> 'g layer) list \<Rightarrow> range_stream
     \<Rightarrow> (xrange \<Rightarrow> 'g layer) list \<times> range_stream" where
  "overlay_loop spikes_aggregate spikes [] items rs = (items, rs)"
| "overlay_loop spikes_aggregate spikes ((offset, symb) # rest) items rs =
     (case visualize_symbol spikes_aggregate spikes symb offset rs of
        (item, rs') \<Rightarrow> overlay_loop spikes_aggregate spikes rest (items @ [item]) rs')"

definition overlay_symbols ::
  "(event list \<Rightarrow> xrange \<Rightarrow> nat \<Rightarrow> 'g) \<Rightarrow> event list \<Rightarrow> string list \<Rightarrow> range_stream
     \<Rightarrow> (xrange \<Rightarrow> 'g overlay) \<times> range_stream" where
  "overlay_symbols spikes_aggregate spikes symbols rs =
     (case overlay_loop spikes_aggregate spikes (enumerate 0 symbols) [] rs of
        (items, rs') \<Rightarrow>
          (\<lambda>xr. \<lparr>layers = map (\<lambda>item. item xr) items,
                  yticks = map (\<lambda>(i, symb). (of_nat i + 1 / 2, symb)) (enumerate 0 symbols),
                  yaxis = True,
                  ylabel = ''Stock Symbol''\<rparr>,
           rs'))"

section \<open>The reactive view\<close>

text \<open>
  Modelled from the spec: the delivery of a range change to the dynamic maps, and the
  re-run of \<^verbatim>\<open>visualize_symbols\<close> when the selector widget changes, are done by the
  plotting and widget libraries, whose code is not part of the repository. Following the
  ViewCoordinator of the spec (notifications arrive serially; each is processed to
  completion and one scene is republished), a view holds the global stream, the dynamic
  map built by the last selection and the scene last published. A range notification
  stores the new range in the stream and evaluates the dynamic map at it; a selection
  change rebuilds the dynamic map with \<open>overlay_symbols\<close> and evaluates it at the contents
  the stream then has.
\<close>

record 'g view =
  stream :: range_stream
  dmap :: "xrange \<Rightarrow> 'g overlay"
  published :: "'g overlay"

text \<open>
  Modelled from the spec: the delivery of one range notification (library code, not part
  of the repository): the ViewCoordinator's \<open>on_range_change\<close> entry point of the design
  notes.
\<close>

definition on_range_change :: "xrange \<Rightarrow> 'g view \<Rightarrow> 'g view" where
  "on_range_change r v =
     v\<lparr>stream := (stream v)\<lparr>x_range := r\<rparr>, published := dmap v r\<rparr>"

text \<open>
  \<^verbatim>\<open>
  @pn.depends(cross_selector)
  def visualize_symbols(symbols):
      return overlay_symbols(symbols)
  \<close>
  \<open>display\<close> is one run of that callback on the global stream, followed by the first
  evaluation of the dynamic map it returns. At startup the stream is fresh and the
  selector holds its default value \<^verbatim>\<open>['PINS','CHK']\<close>.
\<close>

definition display ::
  "(event list \<Rightarrow> xrange \<Rightarrow> nat \<Rightarrow> 'g) \<Rightarrow> event list \<Rightarrow> string list \<Rightarrow> range_stream \<Rightarrow> 'g view" where
  "display spikes_aggregate spikes symbols rs =
     (case overlay_symbols spikes_aggregate spikes symbols rs of
        (dm, rs') \<Rightarrow> \<lparr>stream = rs', dmap = dm, published = dm (x_range rs')\<rparr>)"

definition fresh_stream :: range_stream where
  "fresh_stream = \<lparr>source = None, x_range = None\<rparr>"

definition startup :: "(event list \<Rightarrow> xrange \<Rightarrow> nat \<Rightarrow> 'g) \<Rightarrow> event list \<Rightarrow> 'g view" where
  "startup spikes_aggregate spikes = display spikes_aggregate spikes [''PINS'', ''CHK''] fresh_stream"

definition visualize_symbols ::
  "(event list \<Rightarrow> xrange \<Rightarrow> nat \<Rightarrow> 'g) \<Rightarrow> event list \<Rightarrow> string list \<Rightarrow> 'g view \<Rightarrow> 'g view" where
  "visualize_symbols spikes_aggregate spikes symbols v =
     display spikes_aggregate spikes symbols (stream v)"

text \<open>
  Modelled from the spec: the serial processing of notifications (library code, not part
  of the repository): range changes and selection changes arrive one at a time and each
  is processed to completion before the next.
\<close>

datatype notification = RangeChange xrange | SelectionChange "string list"

fun notify ::
  "(event list \<Rightarrow> xrange \<Rightarrow> nat \<Rightarrow> 'g) \<Rightarrow> event list \<Rightarrow> 'g view \<Rightarrow> notification \<Rightarrow> 'g view" where
  "notify spikes_aggregate spikes v (RangeChange r) = on_range_change r v"
| "notify spikes_aggregate spikes v (SelectionChange symbols) =
     visualize_symbols spikes_aggregate spikes symbols v"

definition run ::
  "(event list \<Rightarrow> xrange \<Rightarrow> nat \<Rightarrow> 'g) \<Rightarrow> event list \<Rightarrow> 'g view \<Rightarrow> notification list \<Rightarrow> 'g view" where
  "run spikes_aggregate spikes v ns = foldl (notify spikes_aggregate spikes) v ns"

text \<open>
  The scene of a selection at one range, written out: for the symbol at each offset, the
  image and the hover layer of that symbol's rows, both at the given range.
\<close>

definition scene_at ::
  "(event list \<Rightarrow> xrange \<Rightarrow> nat \<Rightarrow> 'g) \<Rightarrow> event list \<Rightarrow> string list \<Rightarrow> xrange \<Rightarrow> 'g layer list" where
  "scene_at spikes_aggregate spikes symbols r =
     map (\<lambda>(offset, symb).
            \<lparr>raster = spikes_aggregate (select spikes symb) r offset,
             hover = xrange_filter (select spikes symb) r,
             tools = [''hover''],
             position = offset\<rparr>)
         (enumerate 0 symbols)"

text \<open>
  The symbols on display after a list of notifications, and what it means for a view to
  be up to date with a selection: its dynamic map is the one \<open>overlay_symbols\<close> builds for
  these symbols, and the scene it shows is that map at the contents of its stream.
\<close>

fun selected :: "string list \<Rightarrow> notification list \<Rightarrow> string list" where
  "selected symbols [] = symbols"
| "selected symbols (RangeChange r # ns) = selected symbols ns"
| "selected symbols (SelectionChange symbols' # ns) = selected symbols' ns"

definition settled ::
  "(event list \<Rightarrow> xrange \<Rightarrow> nat \<Rightarrow> 'g) \<Rightarrow> event list \<Rightarrow> string list \<Rightarrow> 'g view \<Rightarrow> bool" where
  "settled spikes_aggregate spikes symbols v \<longleftrightarrow>
     dmap v = fst (overlay_symbols spikes_aggregate spikes symbols fresh_stream) \<and>
     published v = dmap v (x_range (stream v))"

section \<open>The event store and the aggregator of the spec\<close>

text \<open>
  Modelled from the spec: \<open>EventStore.query\<close> has no function of its own in the
  repository; the notebooks reach the store through the library's \<^verbatim>\<open>select\<close> and slice.
  Following the EventStore contract (all events with timestamp in the range and category
  in the given set, \<open>unbounded\<close> returning all matching events), the query keeps the rows
  of the wanted categories and slices them by the range.
\<close>

definition in_range :: "xrange \<Rightarrow> int \<Rightarrow> bool" where
  "in_range r t = (case unpack r of (low, high) \<Rightarrow> in_bounds low high t)"

text \<open>
  Modelled from the spec: \<open>EventStore.query(range, categories)\<close>, which has no function of
  its own in the repository.
\<close>

definition query :: "event list \<Rightarrow> xrange \<Rightarrow> string set \<Rightarrow> event list" where
  "query store r categories =
     (case unpack r of (low, high) \<Rightarrow>
        slice (filter (\<lambda>e. symbol e \<in> categories) store) low high)"

text \<open>
  Modelled from the spec: \<open>Aggregator.aggregate\<close> stands for the rasterizer of the plotting
  library, whose code is not part of the repository. Following the Aggregator contract:
  the field is \<open>count\<close> or \<open>sum(column)\<close>, an event without the column contributing zero;
  the range \<open>(low, high)\<close> maps the ordinate onto the columns \<open>[0, width)\<close> linearly; each
  event of the range goes to exactly one cell, in the column of its timestamp and in the
  band of unit height that the offset selects; the grid has \<open>height\<close> rows of \<open>width\<close>
  cells.
\<close>

datatype field = Count | Sum string

text \<open>
  Modelled from the spec: the value columns an aggregator field can name (the rasterizer
  is library code, not part of the repository); any other name is a missing column.
\<close>

definition column :: "string \<Rightarrow> event \<Rightarrow> int option" where
  "column name e =
     (if name = ''size'' then Some (trade_size e)
      else if name = ''price'' then Some (price e)
      else None)"

text \<open>
  Modelled from the spec: what one event adds to its cell (the rasterizer is library
  code, not part of the repository): one for a count, the value of the column for a sum,
  zero when the column is missing.
\<close>

definition contribution :: "field \<Rightarrow> event \<Rightarrow> int" where
  "contribution fld e =
     (case fld of
        Count \<Rightarrow> 1
      | Sum name \<Rightarrow> (case column name e of None \<Rightarrow> 0 | Some v \<Rightarrow> v))"

text \<open>
  Modelled from the spec: the column of a timestamp (the rasterizer is library code, not
  part of the repository): its position in the range, scaled linearly to \<open>[0, width)\<close>.
\<close>

definition bucket :: "int \<times> int \<Rightarrow> nat \<Rightarrow> int \<Rightarrow> nat" where
  "bucket rng width t =
     nat (((t - fst rng) * int width) div (snd rng - fst rng))"

text \<open>
  Modelled from the spec: membership of an event in a bounded range (the rasterizer is
  library code, not part of the repository), half-open as in the spec's scenario.
\<close>

definition inside :: "int \<times> int \<Rightarrow> event \<Rightarrow> bool" where
  "inside rng e \<longleftrightarrow> fst rng \<le> timestamp e \<and> timestamp e < snd rng"

text \<open>
  Modelled from the spec: the value of one cell (the rasterizer is library code, not part
  of the repository): in the band of the offset, the contributions of the events of the
  range that fall into the column; zero outside that band.
\<close>

definition cell :: "event list \<Rightarrow> int \<times> int \<Rightarrow> nat \<Rightarrow> field \<Rightarrow> nat \<Rightarrow> nat \<Rightarrow> nat \<Rightarrow> int" where
  "cell events rng width fld offset row col =
     (if row = offset
      then sum_list (map (contribution fld)
             (filter (\<lambda>e. inside rng e \<and> bucket rng width (timestamp e) = col) events))
      else 0)"

text \<open>
  Modelled from the spec: \<open>Aggregator.aggregate(events, range, resolution, field)\<close> with
  the offset of the band (the rasterizer is library code, not part of the repository).
\<close>

definition aggregate ::
  "event list \<Rightarrow> int \<times> int \<Rightarrow> nat \<times> nat \<Rightarrow> field \<Rightarrow> nat \<Rightarrow> int list list" where
  "aggregate events rng resolution fld offset =
     map (\<lambda>row. map (\<lambda>col. cell events rng (fst resolution) fld offset row col)
                     [0..<fst resolution])
         [0..<snd resolution]"

text \<open>
  Modelled from the spec: the range that the sentinel \<open>unbounded\<close> stands for, "the full
  extent" of the events given (the rasterizer is library code, not part of the
  repository): the smallest half-open range of integer timestamps that holds them all.
\<close>

definition full_extent :: "event list \<Rightarrow> int \<times> int" where
  "full_extent events =
     (if events = [] then (0, 0)
      else (Min (set (map timestamp events)), Max (set (map timestamp events)) + 1))"

text \<open>The sum over all cells of a grid.\<close>

definition grid_total :: "int list list \<Rightarrow> int" where
  "grid_total grid = sum_list (map sum_list grid)"

text \<open>
  The canvas of the one-billion-point notebook:
  \<^verbatim>\<open>plot_width = 900\<close>, \<^verbatim>\<open>plot_height = int(plot_width*0.5)\<close>.
\<close>

definition plot_width :: nat where
  "plot_width = 900"

definition plot_height :: nat where
  "plot_height = plot_width div 2"

text \<open>The store of the scenario in the spec's testable properties.\<close>

definition scenario :: "event list" where
  "scenario =
     [\<lparr>timestamp = 0, symbol = ''A'', trade_size = 10, price = 100\<rparr>,
      \<lparr>timestamp = 1, symbol = ''A'', trade_size = 5, price = 101\<rparr>,
      \<lparr>timestamp = 2, symbol = ''B'', trade_size = 7, price = 50\<rparr>]"

section \<open>Helper facts\<close>

subsection \<open>Slices and the filter\<close>

lemma rows_xrange_filter_at:
  "rows (xrange_filter_at T spikes r) =
     (if length (ranged_of spikes r) < T then ranged_of spikes r else [])"
  by (simp add: xrange_filter_at_def opts_def iloc_upto_def Let_def)

lemma xrange_filter_at_eq:
  "xrange_filter_at T spikes r =
     opts (if length (ranged_of spikes r) < T then ranged_of spikes r else []) 1 0"
  by (simp add: xrange_filter_at_def iloc_upto_def Let_def)

lemma ranged_of_None: "ranged_of spikes None = spikes"
  by (simp add: ranged_of_def unpack_def slice_def in_bounds_def)

lemma ranged_of_open: "ranged_of spikes (Some (None, None)) = spikes"
  by (simp add: ranged_of_def unpack_def slice_def in_bounds_def)

lemma ranged_of_low:
  "ranged_of spikes (Some (Some l, None)) = filter (\<lambda>e. l \<le> timestamp e) spikes"
  by (simp add: ranged_of_def unpack_def slice_def in_bounds_def)

lemma ranged_of_high:
  "ranged_of spikes (Some (None, Some h)) = filter (\<lambda>e. timestamp e < h) spikes"
  by (simp add: ranged_of_def unpack_def slice_def in_bounds_def)

lemma ranged_of_inverted: "h < l \<Longrightarrow> ranged_of spikes (Some (Some l, Some h)) = []"
  by (auto simp: ranged_of_def unpack_def slice_def in_bounds_def filter_empty_conv)

lemma select_insert_other:
  "symbol e \<noteq> d \<Longrightarrow> select (xs @ e # ys) d = select (xs @ ys) d"
  by (simp add: select_def)

subsection \<open>The loop of \<open>overlay_symbols\<close>\<close>

text \<open>
  The loop appends one dynamic map per symbol and leaves the stream attached to the last
  selection; the contents of the stream are not touched.
\<close>

lemma overlay_loop_eq:
  "overlay_loop agg spikes ps items rs =
     (items @ map (\<lambda>(offset, symb). (\<lambda>xr. \<lparr>raster = agg (select spikes symb) xr offset,
                                              hover = xrange_filter (select spikes symb) xr,
                                              tools = [''hover''],
                                              position = offset\<rparr>)) ps,
      (if ps = [] then rs else rs\<lparr>source := Some (select spikes (snd (last ps)))\<rparr>))"
proof (induction ps arbitrary: items rs)
  case Nil
  show ?case by simp
next
  case (Cons p ps)
  obtain offset symb where p: "p = (offset, symb)" by (cases p)
  show ?case
    by (simp add: p Cons.IH visualize_symbol_def Let_def)
qed

lemma fst_overlay_symbols:
  "fst (overlay_symbols agg spikes symbols rs) =
     (\<lambda>xr. \<lparr>layers = scene_at agg spikes symbols xr,
             yticks = map (\<lambda>(i, symb). (of_nat i + 1 / 2, symb)) (enumerate 0 symbols),
             yaxis = True,
             ylabel = ''Stock Symbol''\<rparr>)"
  by (simp add: overlay_symbols_def overlay_loop_eq scene_at_def split_def comp_def)

lemma layers_overlay_symbols:
  "layers (fst (overlay_symbols agg spikes symbols rs) r) = scene_at agg spikes symbols r"
  by (simp add: fst_overlay_symbols)

lemma x_range_overlay_symbols:
  "x_range (snd (overlay_symbols agg spikes symbols rs)) = x_range rs"
  by (simp add: overlay_symbols_def overlay_loop_eq split_def)

subsection \<open>The view\<close>

lemma dmap_display:
  "dmap (display agg spikes symbols rs) = fst (overlay_symbols agg spikes symbols rs)"
  by (simp add: display_def split_def)

lemma stream_display:
  "stream (display agg spikes symbols rs) = snd (overlay_symbols agg spikes symbols rs)"
  by (simp add: display_def split_def)

lemma published_display:
  "published (display agg spikes symbols rs) =
     fst (overlay_symbols agg spikes symbols rs) (x_range rs)"
  by (simp add: display_def split_def x_range_overlay_symbols)

lemma published_on_range_change: "published (on_range_change r v) = dmap v r"
  by (simp add: on_range_change_def)

lemma x_range_on_range_change: "x_range (stream (on_range_change r v)) = r"
  by (simp add: on_range_change_def)

lemma dmap_run_ranges:
  "dmap (run agg spikes v (map RangeChange rs)) = dmap v"
  by (induction rs arbitrary: v) (simp_all add: run_def on_range_change_def)

lemma map_snd_enumerate_fun:
  "map (\<lambda>p. g (snd p)) (enumerate n xs) = map g xs"
  by (induction xs arbitrary: n) simp_all

lemma hover_rows_scene_at:
  "map (\<lambda>la. rows (hover la)) (scene_at agg spikes symbols r) =
     map (\<lambda>symb. rows (xrange_filter (select spikes symb) r)) symbols"
  using map_snd_enumerate_fun [of "\<lambda>symb. rows (xrange_filter (select spikes symb) r)" 0 symbols]
  by (simp add: scene_at_def comp_def split_def)

text \<open>Every notification leaves the view up to date with the selection then on display.\<close>

lemma settled_display: "settled agg spikes symbols (display agg spikes symbols rs)"
  by (simp add: settled_def dmap_display published_display fst_overlay_symbols
        stream_display x_range_overlay_symbols)

lemma settled_notify:
  "settled agg spikes symbols v \<Longrightarrow> settled agg spikes (selected symbols [n]) (notify agg spikes v n)"
proof (cases n)
  case (RangeChange r)
  assume "settled agg spikes symbols v"
  then show ?thesis
    by (simp add: RangeChange settled_def on_range_change_def)
next
  case (SelectionChange symbols')
  show ?thesis
    by (simp add: SelectionChange visualize_symbols_def settled_display)
qed

lemma settled_run:
  "settled agg spikes symbols v \<Longrightarrow>
     settled agg spikes (selected symbols ns) (run agg spikes v ns)"
proof (induction ns arbitrary: symbols v)
  case Nil
  then show ?case by (simp add: run_def)
next
  case (Cons n ns)
  have step: "settled agg spikes (selected symbols [n]) (notify agg spikes v n)"
    using Cons.prems by (rule settled_notify)
  have "selected symbols (n # ns) = selected (selected symbols [n]) ns"
    by (cases n) simp_all
  moreover have "run agg spikes v (n # ns) = run agg spikes (notify agg spikes v n) ns"
    by (simp add: run_def)
  ultimately show ?case using Cons.IH [OF step] by simp
qed

lemma layers_settled:
  "settled agg spikes symbols v \<Longrightarrow>
     layers (published v) = scene_at agg spikes symbols (x_range (stream v))"
  by (simp add: settled_def fst_overlay_symbols)

lemma layers_published_run:
  "layers (published (run agg spikes (display agg spikes symbols rs) ns)) =
     scene_at agg spikes (selected symbols ns)
       (x_range (stream (run agg spikes (display agg spikes symbols rs) ns)))"
  by (rule layers_settled [OF settled_run [OF settled_display]])

subsection \<open>The aggregator\<close>

lemma int_div_less:
  fixes x b w :: int
  assumes "0 < b" and "x < w * b"
  shows "x div b < w"
proof (rule ccontr)
  assume "\<not> x div b < w"
  then have "w \<le> x div b" by simp
  then have "w * b \<le> x div b * b" using assms(1) by (simp add: mult_right_mono)
  moreover have "x div b * b + x mod b = x" by (rule div_mult_mod_eq)
  moreover have "0 \<le> x mod b" using assms(1) by (rule pos_mod_sign)
  ultimately show False using assms(2) by linarith
qed

text \<open>An event of the range falls into one of the \<open>width\<close> columns.\<close>

lemma bucket_less:
  assumes "inside rng e" and "0 < width"
  shows "bucket rng width (timestamp e) < width"
proof -
  define a where "a = timestamp e - fst rng"
  define b where "b = snd rng - fst rng"
  have a: "0 \<le> a" "a < b" using assms(1) by (simp_all add: inside_def a_def b_def)
  then have b: "0 < b" by simp
  have "a * int width < int width * b" using a assms(2) by (simp add: mult.commute)
  with b have "(a * int width) div b < int width" by (rule int_div_less)
  moreover have "0 \<le> (a * int width) div b"
    using a b by (simp add: pos_imp_zdiv_nonneg_iff)
  ultimately have "nat ((a * int width) div b) < width"
    by (simp add: nat_less_iff)
  then show ?thesis
    by (simp add: bucket_def a_def b_def)
qed

lemma sum_list_indicator:
  "b < width \<Longrightarrow> sum_list (map (\<lambda>col. if b = col then (v::int) else 0) [0..<width]) = v"
  by (simp add: interv_sum_list_conv_sum_set_nat)

text \<open>Summing one band over its columns counts every event of the range once.\<close>

lemma band_sum:
  fixes f :: "event \<Rightarrow> int"
  assumes "0 < width"
  shows "sum_list (map (\<lambda>col. sum_list (map f
            (filter (\<lambda>e. inside rng e \<and> bucket rng width (timestamp e) = col) events)))
          [0..<width])
         = sum_list (map f (filter (inside rng) events))"
proof (induction events)
  case Nil
  show ?case by simp
next
  case (Cons e es)
  let ?S = "\<lambda>col. sum_list (map f
              (filter (\<lambda>e. inside rng e \<and> bucket rng width (timestamp e) = col) es))"
  let ?I = "\<lambda>col. if inside rng e \<and> bucket rng width (timestamp e) = col then f e else (0::int)"
  have split: "sum_list (map (\<lambda>col. sum_list (map f
            (filter (\<lambda>e. inside rng e \<and> bucket rng width (timestamp e) = col) (e # es))))
          [0..<width]) = sum_list (map ?I [0..<width]) + sum_list (map ?S [0..<width])"
  proof -
    have pt: "sum_list (map f
            (filter (\<lambda>e. inside rng e \<and> bucket rng width (timestamp e) = col) (e # es)))
          = ?I col + ?S col" for col
      by simp
    show ?thesis unfolding pt by (rule sum_list_addf)
  qed
  have ind: "sum_list (map ?I [0..<width]) = (if inside rng e then f e else 0)"
  proof (cases "inside rng e")
    case True
    then have "bucket rng width (timestamp e) < width" using assms by (rule bucket_less)
    then show ?thesis using True by (simp add: sum_list_indicator)
  next
    case False
    then show ?thesis by simp
  qed
  show ?case unfolding split ind Cons.IH by simp
qed

lemma grid_total_aggregate:
  assumes "0 < width" and "offset < height"
  shows "grid_total (aggregate events rng (width, height) fld offset) =
           sum_list (map (contribution fld) (filter (inside rng) events))"
proof -
  let ?R = "sum_list (map (contribution fld) (filter (inside rng) events))"
  have row: "sum_list (map (\<lambda>col. cell events rng width fld offset row col) [0..<width]) =
               (if offset = row then ?R else 0)" for row
    using band_sum [OF assms(1), of "contribution fld" rng events]
    by (simp add: cell_def)
  have "grid_total (aggregate events rng (width, height) fld offset) =
          sum_list (map (\<lambda>row. if offset = row then ?R else 0) [0..<height])"
    by (simp add: grid_total_def aggregate_def comp_def row)
  also have "\<dots> = ?R" using assms(2) by (rule sum_list_indicator)
  finally show ?thesis .
qed

lemma inside_full_extent: "e \<in> set events \<Longrightarrow> inside (full_extent events) e"
proof -
  assume e: "e \<in> set events"
  then have ne: "events \<noteq> []" by auto
  have "timestamp e \<in> set (map timestamp events)" using e by simp
  then have "Min (set (map timestamp events)) \<le> timestamp e"
    and "timestamp e \<le> Max (set (map timestamp events))"
    by (simp_all only: Min_le Max_ge List.finite_set)
  then show ?thesis using ne by (simp add: inside_def full_extent_def)
qed

lemma filter_full_extent: "filter (inside (full_extent events)) events = events"
  by (simp add: filter_id_conv inside_full_extent)

lemma contribution_Count: "sum_list (map (contribution Count) xs) = int (length xs)"
  by (induction xs) (simp_all add: contribution_def)

lemma contribution_Sum_size: "map (contribution (Sum ''size'')) xs = map trade_size xs"
  by (simp add: contribution_def column_def)

lemma query_eq_filter:
  "query store r cats = filter (\<lambda>e. in_range r (timestamp e) \<and> symbol e \<in> cats) store"
  by (auto simp: query_def in_range_def slice_def split: prod.splits intro: filter_cong)

section \<open>The threshold rule of the detail filter\<close>

text \<open>
  C1. The detail filter is all or nothing. With \<open>ranged_of spikes r\<close> the events of the
  current range: when there are fewer than the threshold \<open>T\<close>, the filter returns every
  one of them; when there are \<open>T\<close> or more, it returns none. The result is therefore
  always either the whole of the range or empty, never a proper part. At the per-stock
  notebook's threshold of 200, 199 events give 199 records and 200 events give none; at
  the all-trades notebook's threshold of 600 the same holds for 599 and 600 events.
\<close>

theorem xrange_filter_all_or_nothing:
  "(length (ranged_of spikes r) < T \<longrightarrow> rows (xrange_filter_at T spikes r) = ranged_of spikes r) \<and>
   (T \<le> length (ranged_of spikes r) \<longrightarrow> rows (xrange_filter_at T spikes r) = []) \<and>
   (rows (xrange_filter_at T spikes r) = ranged_of spikes r \<or> rows (xrange_filter_at T spikes r) = []) \<and>
   (length (ranged_of spikes r) = 199 \<longrightarrow> length (rows (xrange_filter spikes r)) = 199) \<and>
   (length (ranged_of spikes r) = 200 \<longrightarrow> rows (xrange_filter spikes r) = []) \<and>
   (length (ranged_of spikes r) = 599 \<longrightarrow> length (rows (xrange_filter_trading spikes r)) = 599) \<and>
   (length (ranged_of spikes r) = 600 \<longrightarrow> rows (xrange_filter_trading spikes r) = [])"
  by (simp add: rows_xrange_filter_at xrange_filter_def xrange_filter_trading_def)

theorem xrange_filter_all_or_nothing_witness:
  "length (rows (xrange_filter
      (replicate 199 \<lparr>timestamp = 7, symbol = ''PINS'', trade_size = 100, price = 2550\<rparr>) None)) = 199 \<and>
   rows (xrange_filter
      (replicate 200 \<lparr>timestamp = 7, symbol = ''PINS'', trade_size = 100, price = 2550\<rparr>) None) = []"
  using xrange_filter_all_or_nothing
          [of "replicate 199 \<lparr>timestamp = 7, symbol = ''PINS'', trade_size = 100, price = 2550\<rparr>" None 200]
        xrange_filter_all_or_nothing
          [of "replicate 200 \<lparr>timestamp = 7, symbol = ''PINS'', trade_size = 100, price = 2550\<rparr>" None 200]
  by (simp add: ranged_of_None)

section \<open>Conservation of mass in the aggregator\<close>

text \<open>
  C2. For every list of events, every range and every field, on a grid that has at
  least one column and contains the band of the offset, the cells of the grid returned by
  \<open>aggregate\<close> add up to the statistic of the events whose timestamp lies in the range:
  their number for \<open>Count\<close>, the sum of their sizes for \<open>Sum ''size''\<close>, and in general the
  sum of their contributions; over the full extent that is the statistic of all the
  events. No event of the range is lost.
\<close>

theorem aggregate_conserves_mass:
  "0 < width \<Longrightarrow> offset < height \<Longrightarrow>
     grid_total (aggregate events rng (width, height) fld offset) =
       sum_list (map (contribution fld) (filter (inside rng) events)) \<and>
     grid_total (aggregate events rng (width, height) Count offset) =
       int (length (filter (inside rng) events)) \<and>
     grid_total (aggregate events rng (width, height) (Sum ''size'') offset) =
       sum_list (map trade_size (filter (inside rng) events)) \<and>
     grid_total (aggregate events (full_extent events) (width, height) fld offset) =
       sum_list (map (contribution fld) events)"
  by (simp add: grid_total_aggregate contribution_Count contribution_Sum_size filter_full_extent)

theorem aggregate_conserves_mass_witness:
  "(0::nat) < 2 \<and> (1::nat) < 2 \<and>
   grid_total (aggregate scenario (0, 2) (2, 2) Count 1) = 2 \<and>
   grid_total (aggregate scenario (0, 2) (2, 2) (Sum ''size'') 1) = 15 \<and>
   full_extent scenario = (0, 3) \<and>
   grid_total (aggregate scenario (full_extent scenario) (2, 2) Count 1) = 3"
  using aggregate_conserves_mass [of 2 1 2 scenario "(0, 2)" Count]
  by (simp add: scenario_def inside_def full_extent_def contribution_def)

section \<open>One range for both layers\<close>

text \<open>
  C3. Both layers of every published scene are computed at one and the same range, from
  one and the same selection of events. The dynamic map that \<open>overlay_symbols\<close> returns,
  evaluated at any contents \<open>r\<close> of the range stream, holds for each symbol the image of
  that symbol's rows at \<open>r\<close> and the hover layer of the same rows at the same \<open>r\<close>. Hence,
  after a selection and any number of earlier range changes, a range change to \<open>r\<close>
  publishes exactly that scene, and \<open>r\<close> is the range the stream then holds. More
  generally, after any list of notifications the published scene is the scene of the
  symbols then on display at the range the stream then holds.
\<close>

theorem range_change_consistent:
  "layers (fst (overlay_symbols agg spikes symbols rs) r) =
     map (\<lambda>(offset, symb).
            \<lparr>raster = agg (select spikes symb) r offset,
             hover = xrange_filter (select spikes symb) r,
             tools = [''hover''],
             position = offset\<rparr>)
         (enumerate 0 symbols) \<and>
   layers (published (on_range_change r
       (run agg spikes (visualize_symbols agg spikes symbols v) (map RangeChange earlier)))) =
     map (\<lambda>(offset, symb).
            \<lparr>raster = agg (select spikes symb) r offset,
             hover = xrange_filter (select spikes symb) r,
             tools = [''hover''],
             position = offset\<rparr>)
         (enumerate 0 symbols) \<and>
   x_range (stream (on_range_change r
       (run agg spikes (visualize_symbols agg spikes symbols v) (map RangeChange earlier)))) = r \<and>
   layers (published (run agg spikes (display agg spikes symbols rs) ns)) =
     scene_at agg spikes (selected symbols ns)
       (x_range (stream (run agg spikes (display agg spikes symbols rs) ns)))"
  by (simp add: published_on_range_change x_range_on_range_change dmap_run_ranges
        visualize_symbols_def dmap_display layers_overlay_symbols scene_at_def
        layers_published_run [unfolded scene_at_def])

section \<open>The query of the event store\<close>

text \<open>
  C4. On a store ordered by timestamp, \<open>query\<close> returns exactly the events whose
  timestamp lies in the range and whose category is in the given set, each as often as the
  store holds it, in ascending order of timestamp; with the unbounded range it returns
  all events of those categories.
\<close>

theorem query_exact_and_ordered:
  "sorted (map timestamp store) \<Longrightarrow>
     mset (query store r cats) =
       filter_mset (\<lambda>e. in_range r (timestamp e) \<and> symbol e \<in> cats) (mset store) \<and>
     set (query store r cats) =
       {e \<in> set store. in_range r (timestamp e) \<and> symbol e \<in> cats} \<and>
     sorted (map timestamp (query store r cats)) \<and>
     query store None cats = filter (\<lambda>e. symbol e \<in> cats) store"
  by (auto simp: query_eq_filter sorted_filter in_range_def unpack_def in_bounds_def)

theorem query_exact_and_ordered_witness:
  "sorted (map timestamp scenario) \<and>
   sorted (map timestamp (query scenario (Some (Some 0, Some 2)) {''A''})) \<and>
   query scenario None {''A''} =
     [\<lparr>timestamp = 0, symbol = ''A'', trade_size = 10, price = 100\<rparr>,
      \<lparr>timestamp = 1, symbol = ''A'', trade_size = 5, price = 101\<rparr>]"
proof -
  have ordered: "sorted (map timestamp scenario)"
    by (simp add: scenario_def)
  show ?thesis
    using ordered query_exact_and_ordered [OF ordered, of "Some (Some 0, Some 2)" "{''A''}"]
    by (simp add: scenario_def)
qed

section \<open>Inverted ranges\<close>

text \<open>
  C5, as the claim states it, fails: nothing in the notebooks rejects a range whose low
  end lies above its high end. In the scenario store, with symbols A and B displayed at
  the range \<open>[0,3)\<close>, a notification of the inverted range \<open>(3,0)\<close> replaces the
  published scene by a different one.
\<close>

theorem inverted_range_counterexample:
  "published (on_range_change (Some (Some 3, Some 0))
      (on_range_change (Some (Some 0, Some 3))
         (display (\<lambda>sel xr off. ()) scenario [''A'', ''B''] fresh_stream)))
   \<noteq> published (on_range_change (Some (Some 0, Some 3))
         (display (\<lambda>sel xr off. ()) scenario [''A'', ''B''] fresh_stream))"
  by (simp add: published_on_range_change on_range_change_def dmap_display
      overlay_symbols_def visualize_symbol_def Let_def select_def scenario_def
      xrange_filter_def xrange_filter_at_def ranged_of_def unpack_def slice_def in_bounds_def
      iloc_upto_def opts_def enumerate_eq_zip upt_rec)

text \<open>
  C5, amended. A range notification with \<open>low > high\<close> is accepted like any other: the
  stream takes the inverted range, the slice of \<open>xrange_filter\<close> selects no event, and the
  scene that is published has an empty hover layer for every displayed symbol.
\<close>

theorem inverted_range_empties_detail:
  "h < l \<Longrightarrow>
     rows (xrange_filter_at T spikes (Some (Some l, Some h))) = [] \<and>
     x_range (stream (on_range_change (Some (Some l, Some h)) (visualize_symbols agg spikes symbols v)))
       = Some (Some l, Some h) \<and>
     map (\<lambda>la. rows (hover la))
       (layers (published (on_range_change (Some (Some l, Some h)) (visualize_symbols agg spikes symbols v))))
       = replicate (length symbols) []"
  apply (simp add: rows_xrange_filter_at ranged_of_inverted x_range_on_range_change
        published_on_range_change visualize_symbols_def dmap_display layers_overlay_symbols
        hover_rows_scene_at xrange_filter_def)
  apply (simp add: map_replicate_const)
  done

theorem inverted_range_empties_detail_witness:
  "(0::int) < 3 \<and>
   rows (xrange_filter_at 200 scenario (Some (Some 3, Some 0))) = [] \<and>
   map (\<lambda>la. rows (hover la))
       (layers (published (on_range_change (Some (Some 3, Some 0))
          (visualize_symbols (\<lambda>sel xr off. ()) scenario [''A'', ''B'']
             (startup (\<lambda>sel xr off. ()) scenario)))))
       = [[], []]"
  using inverted_range_empties_detail [of 0 3 200 scenario "\<lambda>sel xr off. ()" "[''A'', ''B'']"
          "startup (\<lambda>sel xr off. ()) scenario"]
  by (simp add: numeral_2_eq_2)

section \<open>The shape of the grid\<close>

text \<open>
  C6. The grid returned by \<open>aggregate\<close> at resolution \<open>(width, height)\<close> has \<open>height\<close> rows of
  \<open>width\<close> cells each, whatever the events are; at the resolution of the
  one-billion-point notebook that is 450 rows of 900 cells.
\<close>

theorem aggregate_fixed_shape:
  "map length (aggregate events rng (width, height) fld offset) = replicate height width \<and>
   map length (aggregate events rng (plot_width, plot_height) fld offset) = replicate 450 900"
  by (simp add: aggregate_def comp_def map_replicate_const plot_width_def plot_height_def)

section \<open>Isolation of categories\<close>

text \<open>
  C8. Adding to the store, at any place, an event whose symbol is not \<open>d\<close> changes nothing
  of what is computed for \<open>d\<close>: the layer pair of \<open>visualize_symbol\<close>, the image of
  \<open>visualize_symbol_raster\<close> and the hover layer are the same at every range.
\<close>

theorem category_isolation:
  "symbol e \<noteq> d \<Longrightarrow>
     fst (visualize_symbol agg (xs @ e # ys) d offset rs) r =
       fst (visualize_symbol agg (xs @ ys) d offset rs) r \<and>
     visualize_symbol_raster agg (xs @ e # ys) d offset r =
       visualize_symbol_raster agg (xs @ ys) d offset r \<and>
     xrange_filter (select (xs @ e # ys) d) r = xrange_filter (select (xs @ ys) d) r"
  by (simp add: visualize_symbol_def visualize_symbol_raster_def Let_def select_insert_other)

theorem category_isolation_witness:
  "''B'' \<noteq> ''A'' \<and>
   xrange_filter
     (select (take 1 scenario @ \<lparr>timestamp = 1, symbol = ''B'', trade_size = 3, price = 51\<rparr>
                # drop 1 scenario) ''A'') None =
   xrange_filter (select (take 1 scenario @ drop 1 scenario) ''A'') None"
  using category_isolation
          [where e = "\<lparr>timestamp = 1, symbol = ''B'', trade_size = 3, price = 51\<rparr>"
             and d = "''A''" and agg = "\<lambda>sel xr off. ()" and xs = "take 1 scenario"
             and ys = "drop 1 scenario" and offset = 0 and rs = fresh_stream and r = None]
  by simp

section \<open>A change of selection keeps the range\<close>

text \<open>
  C9. Rebuilding the overlay for a new selection leaves the contents of the range stream
  as they were, and the scene shown for the new selection is the scene of these symbols
  at that unchanged range.
\<close>

theorem selection_change_keeps_range:
  "x_range (snd (overlay_symbols agg spikes symbols rs)) = x_range rs \<and>
   x_range (stream (visualize_symbols agg spikes symbols v)) = x_range (stream v) \<and>
   layers (published (visualize_symbols agg spikes symbols v)) =
     scene_at agg spikes symbols (x_range (stream v))"
  by (simp add: visualize_symbols_def stream_display published_display
        x_range_overlay_symbols layers_overlay_symbols)

section \<open>Absent and half-open ranges\<close>

text \<open>
  C10. The filter returns a result for every input. Without a range it behaves as with
  the range open at both ends and applies the threshold rule to all the events; with
  only a low bound it keeps the events from that bound on, with only a high bound those
  before it, and applies the threshold rule to them.
\<close>

theorem xrange_filter_open_ranges:
  "xrange_filter_at T spikes None = opts (if length spikes < T then spikes else []) 1 0 \<and>
   xrange_filter_at T spikes (Some (None, None)) = xrange_filter_at T spikes None \<and>
   xrange_filter_at T spikes (Some (Some l, None)) =
     opts (if length (filter (\<lambda>e. l \<le> timestamp e) spikes) < T
           then filter (\<lambda>e. l \<le> timestamp e) spikes else []) 1 0 \<and>
   xrange_filter_at T spikes (Some (None, Some h)) =
     opts (if length (filter (\<lambda>e. timestamp e < h) spikes) < T
           then filter (\<lambda>e. timestamp e < h) spikes else []) 1 0"
  by (simp add: xrange_filter_at_eq ranged_of_None ranged_of_open ranged_of_low ranged_of_high)

end
